theory Spec2Isabelle
  imports Complex_Main "HOL-Library.Word"
begin

section \<open>JavaScript strings\<close>

text \<open>
  A JavaScript string is a sequence of 16-bit code units. String literals of the source are
  written with \<open>js\<close>, which maps each (ASCII) character to its code unit.
\<close>

type_synonym jsstring = "16 word list"

definition js :: "string \<Rightarrow> jsstring" where
  "js s = map (\<lambda>c. of_char c) s"

text \<open>
  \<open>String.prototype.trim\<close> removes the leading and trailing code units that ECMAScript
  classes as white space or line terminator: TAB, LF, VT, FF, CR, SPACE, NBSP, the Unicode
  space separators, LS, PS and the byte order mark.
\<close>

definition isWhiteSpace :: "16 word \<Rightarrow> bool" where
  "isWhiteSpace c \<longleftrightarrow>
     c = 0x0009 \<or> c = 0x000A \<or> c = 0x000B \<or> c = 0x000C \<or> c = 0x000D \<or> c = 0x0020 \<or>
     c = 0x00A0 \<or> c = 0x1680 \<or> (0x2000 \<le> c \<and> c \<le> 0x200A) \<or> c = 0x2028 \<or>
     c = 0x2029 \<or> c = 0x202F \<or> c = 0x205F \<or> c = 0x3000 \<or> c = 0xFEFF"

definition trim :: "jsstring \<Rightarrow> jsstring" where
  "trim s = rev (dropWhile isWhiteSpace (rev (dropWhile isWhiteSpace s)))"


section \<open>The host: recognition capability, process configuration, HTTP\<close>

text \<open>
  What the component reads from its environment at mount: whether \<open>window\<close> has a
  \<open>SpeechRecognition\<close> or a \<open>webkitSpeechRecognition\<close> constructor, and the credential
  \<open>import.meta.env.VITE_OPENAI_API_KEY\<close> (\<open>None\<close> when it is not defined).
\<close>

record host_env =
  has_SpeechRecognition :: bool
  has_webkitSpeechRecognition :: bool
  VITE_OPENAI_API_KEY :: "jsstring option"

text \<open>The recognition object with the three fields the effect configures.\<close>

record recognition =
  continuous :: bool
  interimResults :: bool
  lang :: jsstring

text \<open>
  One entry of \<open>event.results\<close>: its \<open>isFinal\<close> mark and the transcript of its first
  alternative, \<open>results[i][0].transcript\<close>, the only alternative the handler reads (a
  recognition result always carries its best alternative).
\<close>

record speech_result =
  isFinal :: bool
  alt0_transcript :: jsstring

record recognition_event =
  resultIndex :: nat
  results :: "speech_result list"

text \<open>Whether a call into the host returned or threw.\<close>

datatype call_outcome = Returns | Throws

text \<open>The values a parsed response body can take (the value of a number is never read).\<close>

datatype json =
    JNull
  | JBool bool
  | JNum int
  | JStr jsstring
  | JArr "json list"
  | JObj "(jsstring \<times> json) list"

text \<open>How the HTTP exchange ends: without a response, or with a status and a parsed body.\<close>

datatype http_outcome = NoResponse | Response nat json

text \<open>What the \<open>try\<close> block of \<open>summarizeTranscript\<close> can throw.\<close>

datatype js_error = AxiosNetworkError | AxiosBadStatus nat | TypeError

record request =
  req_url :: jsstring
  req_prompt :: jsstring
  req_max_tokens :: nat
  req_n :: nat
  req_stop :: "jsstring option"
  req_temperature :: rat
  hdr_Authorization :: jsstring
  hdr_Content_Type :: jsstring

text \<open>The calls the component makes into the host, in the order it makes them.\<close>

datatype host_call =
    RecognitionStart
  | RecognitionStop
  | ClipboardWriteText jsstring
  | AxiosPost request
  | ConsoleError jsstring js_error


section \<open>Session state\<close>

text \<open>
  The five \<open>useState\<close> cells and the ref of \<open>App\<close>, the variable \<open>finalTranscript\<close> that
  the effect's closure keeps, the requests that are awaiting their response, the log of host
  calls, and the credential read from the environment.
\<close>

record app_state =
  isListening :: bool
  transcript :: jsstring
  summary :: jsstring
  isSummarizing :: bool
  recognitionRef :: "recognition option"
  error :: "jsstring option"
  finalTranscript :: jsstring
  inflight :: "request list"
  host_calls :: "host_call list"
  api_key :: "jsstring option"

definition unsupported_message :: jsstring where
  "unsupported_message =
     js ''Your browser doesn't support speech recognition. Please try using Chrome or Edge.''"

definition start_failed_message :: jsstring where
  "start_failed_message = js ''Couldn't start speech recognition. Please try again.''"

definition nothing_to_summarize_message :: jsstring where
  "nothing_to_summarize_message =
     js ''There's no text to summarize. Please transcribe some speech first.''"

definition summary_failed_message :: jsstring where
  "summary_failed_message = js ''Failed to generate summary. Please try again.''"

definition initial_state :: "host_env \<Rightarrow> app_state" where
  "initial_state env =
     \<lparr> isListening = False, transcript = [], summary = [], isSummarizing = False,
       recognitionRef = None, error = None, finalTranscript = [], inflight = [],
       host_calls = [], api_key = VITE_OPENAI_API_KEY env \<rparr>"

definition recognition_available :: "host_env \<Rightarrow> bool" where
  "recognition_available env \<longleftrightarrow> has_SpeechRecognition env \<or> has_webkitSpeechRecognition env"

text \<open>The first render followed by the mount effect (lines 13 to 48).\<close>

definition mount :: "host_env \<Rightarrow> app_state" where
  "mount env =
     (if recognition_available env
      then (initial_state env)
             \<lparr> recognitionRef :=
                 Some \<lparr> continuous = True, interimResults = True, lang = js ''en-US'' \<rparr> \<rparr>
      else (initial_state env) \<lparr> error := Some unsupported_message \<rparr>)"


section \<open>Recognition callbacks\<close>

text \<open>
  The \<open>for\<close> loop of \<open>onresult\<close>: \<open>i\<close> runs from \<open>event.resultIndex\<close> while
  \<open>i < event.results.length\<close>; the pair is (\<open>finalTranscript\<close>, \<open>interimTranscript\<close>).
\<close>

function onresult_loop ::
  "speech_result list \<Rightarrow> nat \<Rightarrow> jsstring \<times> jsstring \<Rightarrow> jsstring \<times> jsstring" where
  "onresult_loop rs i (fin, interim) =
     (if i < length rs
      then (if isFinal (rs ! i)
            then onresult_loop rs (i + 1) (fin @ alt0_transcript (rs ! i) @ js '' '', interim)
            else onresult_loop rs (i + 1) (fin, interim @ alt0_transcript (rs ! i)))
      else (fin, interim))"
  by pat_completeness auto
termination
  by (relation "measure (\<lambda>(rs, i, acc). length rs - i)") auto

declare onresult_loop.simps [simp del]

definition onresult :: "recognition_event \<Rightarrow> app_state \<Rightarrow> app_state" where
  "onresult event s =
     (case onresult_loop (results event) (resultIndex event) (finalTranscript s, []) of
        (fin, interim) \<Rightarrow> s \<lparr> finalTranscript := fin, transcript := fin @ interim \<rparr>)"

definition onerror :: "jsstring \<Rightarrow> app_state \<Rightarrow> app_state" where
  "onerror event_error s =
     s \<lparr> error := Some (js ''Speech recognition error: '' @ event_error),
         isListening := False \<rparr>"

definition onend :: "app_state \<Rightarrow> app_state" where
  "onend s = s \<lparr> isListening := False \<rparr>"


section \<open>User actions\<close>

definition call_host :: "host_call \<Rightarrow> app_state \<Rightarrow> app_state" where
  "call_host c s = s \<lparr> host_calls := host_calls s @ [c] \<rparr>"

text \<open>
  \<open>toggleListening\<close>. The optional chaining \<open>recognitionRef.current?.start()\<close> calls
  nothing, and so throws nothing, when the ref is \<open>null\<close>; the argument says what
  \<open>start()\<close> does when it is called.
\<close>

definition toggleListening :: "call_outcome \<Rightarrow> app_state \<Rightarrow> app_state" where
  "toggleListening start_outcome s =
     (if isListening s
      then (case recognitionRef s of
              None \<Rightarrow> s
            | Some r \<Rightarrow> call_host RecognitionStop s)
      else (case recognitionRef s of
              None \<Rightarrow> s \<lparr> isListening := True, error := None \<rparr>
            | Some r \<Rightarrow>
                (case start_outcome of
                   Returns \<Rightarrow> (call_host RecognitionStart s) \<lparr> isListening := True, error := None \<rparr>
                 | Throws \<Rightarrow> (call_host RecognitionStart s) \<lparr> error := Some start_failed_message \<rparr>)))"

definition copyToClipboard :: "app_state \<Rightarrow> app_state" where
  "copyToClipboard s = call_host (ClipboardWriteText (transcript s)) s"

definition clearTranscript :: "app_state \<Rightarrow> app_state" where
  "clearTranscript s = s \<lparr> transcript := [], summary := [] \<rparr>"


section \<open>Summarization\<close>

text \<open>
  The request body and headers of lines 83 to 98. A template literal renders an undefined
  value as the text \<open>undefined\<close>.
\<close>

definition completion_request :: "jsstring option \<Rightarrow> jsstring \<Rightarrow> request" where
  "completion_request key text =
     \<lparr> req_url = js ''https://api.openai.com/v1/engines/text-davinci-002/completions'',
       req_prompt =
         js ''Please summarize the following text:'' @ [0x0A, 0x0A] @ text @ [0x0A, 0x0A]
           @ js ''Summary:'',
       req_max_tokens = 100,
       req_n = 1,
       req_stop = None,
       req_temperature = 1 / 2,
       hdr_Authorization =
         js ''Bearer '' @ (case key of None \<Rightarrow> js ''undefined'' | Some k \<Rightarrow> k),
       hdr_Content_Type = js ''application/json'' \<rparr>"

text \<open>\<open>axios.post\<close> sends the request; the promise it returns is pending.\<close>

definition axios_post :: "request \<Rightarrow> app_state \<Rightarrow> app_state" where
  "axios_post r s = (call_host (AxiosPost r) s) \<lparr> inflight := inflight s @ [r] \<rparr>"

text \<open>
  \<open>summarizeTranscript\<close> up to its \<open>await\<close> (lines 74 to 98): the guard on the empty
  transcript, the two state updates, then the request.
\<close>

definition summarizeTranscript :: "app_state \<Rightarrow> app_state" where
  "summarizeTranscript s =
     (if transcript s = []
      then s \<lparr> error := Some nothing_to_summarize_message \<rparr>
      else axios_post (completion_request (api_key s) (transcript s))
             (s \<lparr> isSummarizing := True, error := None \<rparr>))"

text \<open>
  How the awaited promise settles. With axios's default \<open>validateStatus\<close> the promise is
  fulfilled with the response for a status from 200 to 299 and rejected otherwise, as it is
  when no response arrives.
\<close>

definition axios_settle :: "http_outcome \<Rightarrow> js_error + json" where
  "axios_settle outcome =
     (case outcome of
        NoResponse \<Rightarrow> Inl AxiosNetworkError
      | Response status body \<Rightarrow>
          if 200 \<le> status \<and> status < 300 then Inr body else Inl (AxiosBadStatus status))"

text \<open>
  Property reads on a parsed JSON value; \<open>None\<close> is JavaScript's \<open>undefined\<close>. Reading a
  property of \<open>undefined\<close> or \<open>null\<close> throws a TypeError. \<open>read_property\<close> is for the
  names \<open>choices\<close> and \<open>text\<close>, which only an object can have as a property;
  \<open>read_index0\<close> is \<open>v[0]\<close>, which an array, an object with a key \<open>0\<close> and a non-empty
  string have.
\<close>

definition read_property :: "jsstring \<Rightarrow> json option \<Rightarrow> js_error + json option" where
  "read_property name v =
     (case v of
        None \<Rightarrow> Inl TypeError
      | Some JNull \<Rightarrow> Inl TypeError
      | Some (JObj members) \<Rightarrow> Inr (map_of members name)
      | Some other \<Rightarrow> Inr None)"

definition read_index0 :: "json option \<Rightarrow> js_error + json option" where
  "read_index0 v =
     (case v of
        None \<Rightarrow> Inl TypeError
      | Some JNull \<Rightarrow> Inl TypeError
      | Some (JArr elems) \<Rightarrow> Inr (case elems of [] \<Rightarrow> None | x # xs \<Rightarrow> Some x)
      | Some (JObj members) \<Rightarrow> Inr (map_of members (js ''0''))
      | Some (JStr str) \<Rightarrow> Inr (case str of [] \<Rightarrow> None | c # cs \<Rightarrow> Some (JStr [c]))
      | Some other \<Rightarrow> Inr None)"

text \<open>
  \<open>v.trim()\<close>: only a string has a callable \<open>trim\<close>; on every other value the call
  throws a TypeError (no value parsed from JSON is a function).
\<close>

definition call_trim :: "json option \<Rightarrow> js_error + jsstring" where
  "call_trim v = (case v of Some (JStr str) \<Rightarrow> Inr (trim str) | other \<Rightarrow> Inl TypeError)"

text \<open>The expression \<open>response.data.choices[0].text.trim()\<close> of line 100.\<close>

definition choices_0_text_trim :: "json \<Rightarrow> js_error + jsstring" where
  "choices_0_text_trim data =
     (case read_property (js ''choices'') (Some data) of
        Inl e \<Rightarrow> Inl e
      | Inr choices \<Rightarrow>
          (case read_index0 choices of
             Inl e \<Rightarrow> Inl e
           | Inr choice \<Rightarrow>
               (case read_property (js ''text'') choice of
                  Inl e \<Rightarrow> Inl e
                | Inr text \<Rightarrow> call_trim text)))"

text \<open>The \<open>try\<close> block after the \<open>await\<close>: the value passed to \<open>setSummary\<close>, or what is thrown.\<close>

definition try_block :: "http_outcome \<Rightarrow> js_error + jsstring" where
  "try_block outcome =
     (case axios_settle outcome of
        Inl e \<Rightarrow> Inl e
      | Inr data \<Rightarrow> choices_0_text_trim data)"

text \<open>
  \<open>summarizeTranscript\<close> from its \<open>await\<close> on (lines 100 to 106): \<open>setSummary\<close>, or the
  \<open>catch\<close> block, then the \<open>finally\<close> block.
\<close>

definition summarizeTranscript_resume :: "http_outcome \<Rightarrow> app_state \<Rightarrow> app_state" where
  "summarizeTranscript_resume outcome s =
     (case try_block outcome of
        Inr text \<Rightarrow> s \<lparr> summary := text \<rparr>
      | Inl cause \<Rightarrow>
          call_host (ConsoleError (js ''Error summarizing transcript:'') cause)
            (s \<lparr> error := Some summary_failed_message \<rparr>))
     \<lparr> isSummarizing := False \<rparr>"


section \<open>Presentation\<close>

text \<open>
  What the returned JSX shows of the state (lines 109 to 166): the label of the toggle
  button, the error paragraph, the transcript, the summarize button with its \<open>disabled\<close>
  attribute and label, and the summary section. \<open>error &&\<close> and \<open>summary &&\<close> show nothing
  for \<open>null\<close> and for the empty string.
\<close>

record view =
  toggle_label :: jsstring
  error_paragraph :: "jsstring option"
  transcript_paragraph :: jsstring
  summarize_disabled :: bool
  summarize_label :: jsstring
  summary_section :: "jsstring option"

definition render :: "app_state \<Rightarrow> view" where
  "render s =
     \<lparr> toggle_label = (if isListening s then js ''Stop Listening'' else js ''Start Listening''),
       error_paragraph =
         (case error s of None \<Rightarrow> None | Some e \<Rightarrow> if e = [] then None else Some e),
       transcript_paragraph = transcript s,
       summarize_disabled = isSummarizing s,
       summarize_label = (if isSummarizing s then js ''Summarizing...'' else js ''Summarize''),
       summary_section = (if summary s = [] then None else Some (summary s)) \<rparr>"


section \<open>The event loop\<close>

text \<open>
  Handlers run one at a time, and the component has rendered between two of them, so each
  handler reads the current state. A click on the summarize button reaches its handler only
  when the button is not disabled; the recognition callbacks exist only when the effect has
  created the recognition object; a response settles a request that is awaiting one.
\<close>

datatype event =
    Click_toggleListening call_outcome
  | Click_copyToClipboard
  | Click_clearTranscript
  | Click_summarizeTranscript
  | Recognition_result recognition_event
  | Recognition_error jsstring
  | Recognition_end
  | Request_settled nat http_outcome

fun enabled :: "app_state \<Rightarrow> event \<Rightarrow> bool" where
  "enabled s Click_summarizeTranscript = (\<not> summarize_disabled (render s))"
| "enabled s (Recognition_result e) = (recognitionRef s \<noteq> None)"
| "enabled s (Recognition_error e) = (recognitionRef s \<noteq> None)"
| "enabled s Recognition_end = (recognitionRef s \<noteq> None)"
| "enabled s (Request_settled i outcome) = (i < length (inflight s))"
| "enabled s other = True"

fun step :: "app_state \<Rightarrow> event \<Rightarrow> app_state" where
  "step s (Click_toggleListening start_outcome) = toggleListening start_outcome s"
| "step s Click_copyToClipboard = copyToClipboard s"
| "step s Click_clearTranscript = clearTranscript s"
| "step s Click_summarizeTranscript = summarizeTranscript s"
| "step s (Recognition_result e) = onresult e s"
| "step s (Recognition_error e) = onerror e s"
| "step s Recognition_end = onend s"
| "step s (Request_settled i outcome) =
     summarizeTranscript_resume outcome
       (s \<lparr> inflight := take i (inflight s) @ drop (Suc i) (inflight s) \<rparr>)"

fun run :: "app_state \<Rightarrow> event list \<Rightarrow> app_state option" where
  "run s [] = Some s"
| "run s (e # es) = (if enabled s e then run (step s e) es else None)"


section \<open>The transcript as the specification words it\<close>

text \<open>
  The segments of an event are its results from the \<open>resultIndex\<close> cursor forward.
  \<open>spec_transcript\<close> follows the specification's sentence: every segment marked final in
  any event so far, each followed by one space, then the interim segments of the most recent
  event only.
\<close>

definition segments :: "recognition_event \<Rightarrow> speech_result list" where
  "segments event = drop (resultIndex event) (results event)"

definition finalized_text :: "speech_result list \<Rightarrow> jsstring" where
  "finalized_text segs = concat (map (\<lambda>r. alt0_transcript r @ js '' '') (filter isFinal segs))"

definition interim_text :: "speech_result list \<Rightarrow> jsstring" where
  "interim_text segs = concat (map alt0_transcript (filter (\<lambda>r. \<not> isFinal r) segs))"

definition spec_transcript :: "recognition_event list \<Rightarrow> jsstring" where
  "spec_transcript events =
     finalized_text (concat (map segments events))
       @ (case rev events of [] \<Rightarrow> [] | latest # earlier \<Rightarrow> interim_text (segments latest))"

definition deliver :: "app_state \<Rightarrow> recognition_event list \<Rightarrow> app_state" where
  "deliver s events = foldl (\<lambda>s event. onresult event s) s events"


section \<open>Concrete environments, events and states\<close>

definition env_none :: host_env where
  "env_none =
     \<lparr> has_SpeechRecognition = False, has_webkitSpeechRecognition = False,
       VITE_OPENAI_API_KEY = None \<rparr>"

definition env_webkit :: host_env where
  "env_webkit =
     \<lparr> has_SpeechRecognition = False, has_webkitSpeechRecognition = True,
       VITE_OPENAI_API_KEY = Some (js ''sk-test'') \<rparr>"

definition hello_event :: recognition_event where
  "hello_event =
     \<lparr> resultIndex = 0, results = [\<lparr> isFinal = True, alt0_transcript = js ''hello'' \<rparr>] \<rparr>"

definition world_event :: recognition_event where
  "world_event =
     \<lparr> resultIndex = 0, results = [\<lparr> isFinal = False, alt0_transcript = js '' world'' \<rparr>] \<rparr>"

definition completion_body :: "jsstring \<Rightarrow> json" where
  "completion_body text = JObj [(js ''choices'', JArr [JObj [(js ''text'', JStr text)]])]"

text \<open>A transcript has been recognised and the first summarization request is outstanding.\<close>

definition first_request_state :: app_state where
  "first_request_state =
     step (step (mount env_webkit) (Recognition_result hello_event)) Click_summarizeTranscript"

text \<open>
  That request was answered with the summary \<open>old\<close>, and a second request is outstanding.
\<close>

definition busy_state :: app_state where
  "busy_state =
     step (step first_request_state (Request_settled 0 (Response 200 (completion_body (js ''old'')))))
       Click_summarizeTranscript"

text \<open>A transcript has been recognised, then the recognizer reported an error.\<close>

definition errored_state :: app_state where
  "errored_state =
     step (step (mount env_webkit) (Recognition_result hello_event))
       (Recognition_error (js ''network''))"


section \<open>Invariant of the summarization flag\<close>

definition single_flight :: "app_state \<Rightarrow> bool" where
  "single_flight s \<longleftrightarrow> (if isSummarizing s then length (inflight s) = 1 else inflight s = [])"

text \<open>The recognition events of a trace, in order.\<close>

fun result_events :: "event list \<Rightarrow> recognition_event list" where
  "result_events [] = []"
| "result_events (Recognition_result e # evs) = e # result_events evs"
| "result_events (other # evs) = result_events evs"



section \<open>The recognition fold\<close>

lemma finalized_text_append: "finalized_text (xs @ ys) = finalized_text xs @ finalized_text ys"
  by (simp add: finalized_text_def)

lemma onresult_loop_drop:
  "onresult_loop rs i (fin, interim) =
     (fin @ finalized_text (drop i rs), interim @ interim_text (drop i rs))"
proof (induction rs i "(fin, interim)" arbitrary: fin interim rule: onresult_loop.induct)
  case (1 rs i fin interim)
  show ?case
  proof (cases "i < length rs")
    case False
    then show ?thesis
      by (simp add: onresult_loop.simps finalized_text_def interim_text_def)
  next
    case True
    then have d: "drop i rs = rs ! i # drop (Suc i) rs"
      by (simp add: Cons_nth_drop_Suc)
    show ?thesis
    proof (cases "isFinal (rs ! i)")
      case True
      with \<open>i < length rs\<close> "1.hyps"(1) d show ?thesis
        by (subst onresult_loop.simps) (simp add: finalized_text_def interim_text_def)
    next
      case False
      with \<open>i < length rs\<close> "1.hyps"(2) d show ?thesis
        by (subst onresult_loop.simps) (simp add: finalized_text_def interim_text_def)
    qed
  qed
qed

lemma onresult_fields:
  "finalTranscript (onresult e s) = finalTranscript s @ finalized_text (segments e)"
  "transcript (onresult e s) =
     finalTranscript s @ finalized_text (segments e) @ interim_text (segments e)"
  by (simp_all add: onresult_def onresult_loop_drop segments_def)

lemma deliver_snoc: "deliver s (es @ [e]) = onresult e (deliver s es)"
  by (simp add: deliver_def)

lemma finalTranscript_deliver:
  "finalTranscript (deliver s es) = finalTranscript s @ finalized_text (concat (map segments es))"
  by (induction es rule: rev_induct)
     (simp_all add: deliver_def onresult_fields finalized_text_append, simp add: finalized_text_def)


section \<open>Facts about the concrete states\<close>

lemma env_webkit_available: "recognition_available env_webkit"
  by code_simp

lemma mount_env_none_fields:
  "isListening (mount env_none) = False"
  "recognitionRef (mount env_none) = None"
  "error (mount env_none) = Some unsupported_message"
  "transcript (mount env_none) = []"
  by code_simp+

lemma mount_env_webkit_fields:
  "transcript (mount env_webkit) = []"
  "summary (mount env_webkit) = []"
  "inflight (mount env_webkit) = []"
  "host_calls (mount env_webkit) = []"
  by code_simp+

lemma first_request_state_fields:
  "isSummarizing first_request_state = True"
  "length (inflight first_request_state) = 1"
  by code_simp+

lemma run_first_request:
  "run (mount env_webkit) [Recognition_result hello_event, Click_summarizeTranscript]
     = Some first_request_state"
  by code_simp

lemma busy_state_fields:
  "isSummarizing busy_state = True"
  "summary busy_state = js ''old''"
  "error busy_state = None"
  by code_simp+

lemma errored_state_fields:
  "transcript errored_state = js ''hello ''"
  "error errored_state = Some (js ''Speech recognition error: network'')"
  by code_simp+


section \<open>Recognition updates (C1)\<close>

text \<open>
  Claim C1. When the recognition capability is present, after any sequence of recognition
  events delivered to \<open>onresult\<close> since mount, the transcript state, which is the displayed
  transcript, is the text of every segment marked final in any of the events, each followed
  by one space, followed by the interim segments of the last event only.
\<close>

theorem transcript_after_recognition_events:
  "recognition_available env \<Longrightarrow>
   transcript (deliver (mount env) events) = spec_transcript events
   \<and> transcript_paragraph (render (deliver (mount env) events)) = spec_transcript events"
proof (cases events rule: rev_cases)
  case Nil
  then show ?thesis
    by (simp add: deliver_def mount_def initial_state_def spec_transcript_def
        finalized_text_def render_def)
next
  case (snoc es e)
  have "finalTranscript (mount env) = []"
    by (simp add: mount_def initial_state_def)
  then show ?thesis using snoc
    by (simp add: deliver_snoc onresult_fields finalTranscript_deliver spec_transcript_def
        finalized_text_append render_def)
qed

text \<open>
  The scenario of the claim: a final segment \<open>hello\<close>, then an interim segment
  \<open> world\<close>, display \<open>hello  world\<close>, with two spaces.
\<close>

theorem transcript_hello_world:
  "recognition_available env_webkit
   \<and> transcript (deliver (mount env_webkit) [hello_event, world_event]) = js ''hello  world''
   \<and> transcript_paragraph (render (deliver (mount env_webkit) [hello_event, world_event]))
       = js ''hello  world''"
proof -
  have spec: "spec_transcript [hello_event, world_event] = js ''hello  world''"
    by code_simp
  from transcript_after_recognition_events [OF env_webkit_available, of "[hello_event, world_event]"]
    env_webkit_available spec
  show ?thesis by simp
qed

text \<open>
  The same holds when clicks, recognition errors and responses come between the recognition
  events: no other handler assigns \<open>finalTranscript\<close>, so right after a recognition event
  the transcript is the one of all the recognition events of the trace. In particular
  \<open>clearTranscript\<close> does not reset the finalized text.
\<close>

lemma finalTranscript_step:
  "finalTranscript (step s e) = finalTranscript s @ finalized_text (concat (map segments (result_events [e])))"
  by (cases e)
     (simp_all add: onresult_fields toggleListening_def copyToClipboard_def clearTranscript_def
        summarizeTranscript_def summarizeTranscript_resume_def axios_post_def call_host_def
        onerror_def onend_def finalized_text_def
        split: option.splits call_outcome.splits sum.splits)

lemma result_events_Cons: "result_events (e # evs) = result_events [e] @ result_events evs"
  by (cases e) simp_all

lemma result_events_append: "result_events (xs @ ys) = result_events xs @ result_events ys"
proof (induction xs)
  case Nil
  show ?case by simp
next
  case (Cons e xs)
  have "result_events ((e # xs) @ ys) = result_events [e] @ result_events (xs @ ys)"
    using result_events_Cons [of e "xs @ ys"] by simp
  also have "\<dots> = result_events [e] @ result_events xs @ result_events ys"
    by (simp add: Cons.IH)
  also have "\<dots> = result_events (e # xs) @ result_events ys"
    using result_events_Cons [of e xs] by simp
  finally show ?case .
qed

lemma finalTranscript_run:
  "run s evs = Some s' \<Longrightarrow>
   finalTranscript s' = finalTranscript s @ finalized_text (concat (map segments (result_events evs)))"
proof (induction evs arbitrary: s)
  case Nil
  then show ?case by (simp add: finalized_text_def)
next
  case (Cons e evs)
  from Cons.prems have r: "run (step s e) evs = Some s'"
    by (simp split: if_splits)
  have "finalTranscript s' = finalTranscript (step s e) @ finalized_text (concat (map segments (result_events evs)))"
    using r by (rule Cons.IH)
  then show ?case
    using result_events_Cons [of e evs]
    by (simp add: finalTranscript_step finalized_text_append)
qed

lemma run_append:
  "run s (xs @ ys) = (case run s xs of None \<Rightarrow> None | Some s' \<Rightarrow> run s' ys)"
  by (induction xs arbitrary: s) simp_all

lemma transcript_after_result_in_trace:
  assumes "run (mount env) (evs @ [Recognition_result e]) = Some s'"
  shows "transcript s' = spec_transcript (result_events (evs @ [Recognition_result e]))"
proof -
  from assms obtain s where r: "run (mount env) evs = Some s" and s': "s' = onresult e s"
    by (auto simp add: run_append split: option.splits if_splits)
  have "finalTranscript (mount env) = []"
    by (simp add: mount_def initial_state_def)
  with finalTranscript_run [OF r]
  have "finalTranscript s = finalized_text (concat (map segments (result_events evs)))"
    by simp
  then show ?thesis
    by (simp add: s' onresult_fields result_events_append spec_transcript_def finalized_text_append)
qed


section \<open>Toggling without a recognition capability (C2)\<close>

text \<open>
  Claim C2 says that without a recognition capability a toggle never sets the listening flag
  and leaves the capability-unsupported error in the error slot. The code does otherwise:
  after mount without capability the ref is \<open>null\<close> and the error slot holds the
  unsupported message; \<open>toggleListening\<close> then skips \<open>start()\<close> through the optional
  chaining, nothing is thrown, and \<open>setIsListening(true)\<close> and \<open>setError(null)\<close> run. The
  button reads \<open>Stop Listening\<close> although no recognizer was started.
\<close>

theorem toggleListening_without_capability:
  "\<not> recognition_available env_none
   \<and> isListening (mount env_none) = False
   \<and> error (mount env_none) = Some unsupported_message
   \<and> isListening (toggleListening start_outcome (mount env_none)) = True
   \<and> error (toggleListening start_outcome (mount env_none)) = None
   \<and> host_calls (toggleListening start_outcome (mount env_none)) = []
   \<and> toggle_label (render (toggleListening start_outcome (mount env_none)))
       = js ''Stop Listening''"
  by (simp add: toggleListening_def mount_def env_none_def recognition_available_def
      initial_state_def render_def)

text \<open>
  Without a recognizer no \<open>onend\<close> or \<open>onerror\<close> callback exists, so once set the
  listening flag stays set whatever happens next.
\<close>

lemma listening_without_recognizer_step:
  "recognitionRef s = None \<Longrightarrow> isListening s \<Longrightarrow> enabled s e \<Longrightarrow>
   recognitionRef (step s e) = None \<and> isListening (step s e)"
  by (cases e)
     (simp_all add: toggleListening_def copyToClipboard_def clearTranscript_def
        summarizeTranscript_def summarizeTranscript_resume_def axios_post_def call_host_def
        split: sum.splits)

lemma listening_without_recognizer_run:
  "recognitionRef s = None \<Longrightarrow> isListening s \<Longrightarrow> run s evs = Some s' \<Longrightarrow> isListening s'"
proof (induction evs arbitrary: s)
  case Nil
  then show ?case by simp
next
  case (Cons e evs)
  from Cons.prems(3) have en: "enabled s e" and r: "run (step s e) evs = Some s'"
    by (simp_all split: if_splits)
  from listening_without_recognizer_step [OF Cons.prems(1,2) en] r show ?case
    using Cons.IH by blast
qed


section \<open>Summarizing an empty transcript (C3)\<close>

text \<open>
  Claim C3. With an empty transcript, \<open>summarizeTranscript\<close> only sets the error slot to the
  nothing-to-summarize message: no request is sent or outstanding, no host call is made, and
  the summary is unchanged.
\<close>

theorem summarize_empty_transcript:
  "transcript s = [] \<Longrightarrow>
   summarizeTranscript s = s \<lparr> error := Some nothing_to_summarize_message \<rparr>
   \<and> inflight (summarizeTranscript s) = inflight s
   \<and> host_calls (summarizeTranscript s) = host_calls s
   \<and> error (summarizeTranscript s) = Some nothing_to_summarize_message
   \<and> summary (summarizeTranscript s) = summary s"
  by (simp add: summarizeTranscript_def)

theorem summarize_empty_transcript_at_mount:
  "transcript (mount env_webkit) = []
   \<and> inflight (summarizeTranscript (mount env_webkit)) = []
   \<and> host_calls (summarizeTranscript (mount env_webkit)) = []
   \<and> error (summarizeTranscript (mount env_webkit)) = Some nothing_to_summarize_message
   \<and> summary (summarizeTranscript (mount env_webkit)) = []"
proof -
  have h: "transcript (mount env_webkit) = []"
    by (rule mount_env_webkit_fields)
  from summarize_empty_transcript [OF h] have
    "inflight (summarizeTranscript (mount env_webkit)) = inflight (mount env_webkit)"
    "host_calls (summarizeTranscript (mount env_webkit)) = host_calls (mount env_webkit)"
    "error (summarizeTranscript (mount env_webkit)) = Some nothing_to_summarize_message"
    "summary (summarizeTranscript (mount env_webkit)) = summary (mount env_webkit)"
    by blast+
  then show ?thesis
    by (simp add: mount_env_webkit_fields)
qed


section \<open>A summarization request that fails (C4)\<close>

text \<open>
  The \<open>try\<close> block throws when no response arrives, when the status is not 2xx, and when
  the body has not the shape \<open>{choices: [{text: string}, ...]}\<close>: it is not an object, has
  no \<open>choices\<close>, has an empty \<open>choices\<close> array, or its first choice has no string
  \<open>text\<close>.
\<close>

lemma try_block_no_response: "try_block NoResponse = Inl AxiosNetworkError"
  by (simp add: try_block_def axios_settle_def)

lemma try_block_bad_status:
  "\<not> (200 \<le> status \<and> status < 300) \<Longrightarrow> try_block (Response status body) = Inl (AxiosBadStatus status)"
  by (auto simp add: try_block_def axios_settle_def)

lemma try_block_2xx:
  "200 \<le> status \<Longrightarrow> status < 300 \<Longrightarrow> try_block (Response status body) = choices_0_text_trim body"
  by (simp add: try_block_def axios_settle_def)

lemma no_choices_TypeError:
  "map_of members (js ''choices'') = None \<Longrightarrow> choices_0_text_trim (JObj members) = Inl TypeError"
  by (simp add: choices_0_text_trim_def read_property_def read_index0_def)

lemma empty_choices_TypeError:
  "map_of members (js ''choices'') = Some (JArr []) \<Longrightarrow> choices_0_text_trim (JObj members) = Inl TypeError"
  by (simp add: choices_0_text_trim_def read_property_def read_index0_def)

lemma call_trim_not_string: "(\<And>str. v \<noteq> Some (JStr str)) \<Longrightarrow> call_trim v = Inl TypeError"
  by (auto simp add: call_trim_def split: option.splits json.splits)

lemma text_not_string_TypeError:
  "map_of members (js ''choices'') = Some (JArr (JObj choice # others)) \<Longrightarrow>
   (\<And>str. map_of choice (js ''text'') \<noteq> Some (JStr str)) \<Longrightarrow>
   choices_0_text_trim (JObj members) = Inl TypeError"
  by (simp add: choices_0_text_trim_def read_property_def read_index0_def call_trim_not_string)

lemma not_object_TypeError:
  "(\<And>members. body \<noteq> JObj members) \<Longrightarrow> choices_0_text_trim body = Inl TypeError"
  by (cases body) (auto simp add: choices_0_text_trim_def read_property_def read_index0_def)


text \<open>
  Claim C4. When the \<open>try\<close> block throws, the error slot is set to the generic failure
  message, the summary is unchanged, the cause is passed to \<open>console.error\<close>, and what the
  view shows is the same for every cause.
\<close>

theorem summarize_failure_keeps_summary:
  "try_block outcome = Inl cause \<Longrightarrow>
   error (summarizeTranscript_resume outcome s) = Some summary_failed_message
   \<and> summary (summarizeTranscript_resume outcome s) = summary s
   \<and> host_calls (summarizeTranscript_resume outcome s)
       = host_calls s @ [ConsoleError (js ''Error summarizing transcript:'') cause]
   \<and> render (summarizeTranscript_resume outcome s)
       = render (s \<lparr> error := Some summary_failed_message, isSummarizing := False \<rparr>)"
  by (simp add: summarizeTranscript_resume_def call_host_def render_def)

text \<open>The scenario of an HTTP 500 answer while the summary is \<open>old\<close>.\<close>

theorem summarize_http_500:
  "try_block (Response 500 JNull) = Inl (AxiosBadStatus 500)
   \<and> error (summarizeTranscript_resume (Response 500 JNull) busy_state)
       = Some summary_failed_message
   \<and> summary (summarizeTranscript_resume (Response 500 JNull) busy_state) = js ''old''"
proof -
  have h: "try_block (Response 500 JNull) = Inl (AxiosBadStatus 500)"
    by (simp add: try_block_def axios_settle_def)
  from summarize_failure_keeps_summary [OF h, of busy_state] have
    "error (summarizeTranscript_resume (Response 500 JNull) busy_state)
       = Some summary_failed_message"
    "summary (summarizeTranscript_resume (Response 500 JNull) busy_state) = summary busy_state"
    by blast+
  with h show ?thesis
    by (simp add: busy_state_fields)
qed


section \<open>At most one request in flight (C5)\<close>

lemma single_flight_mount: "single_flight (mount env)"
  by (simp add: single_flight_def mount_def initial_state_def)

lemma single_flight_step: "single_flight s \<Longrightarrow> enabled s e \<Longrightarrow> single_flight (step s e)"
proof (cases e)
  case (Click_toggleListening x)
  assume "single_flight s" then show ?thesis using Click_toggleListening
    by (auto simp add: single_flight_def toggleListening_def call_host_def split: option.splits call_outcome.splits if_splits)
next
  case Click_summarizeTranscript
  assume "single_flight s" "enabled s e" then show ?thesis using Click_summarizeTranscript
    by (simp add: single_flight_def summarizeTranscript_def axios_post_def call_host_def render_def)
next
  case (Recognition_result x)
  assume "single_flight s" then show ?thesis using Recognition_result
    by (simp add: single_flight_def onresult_def split: prod.splits)
next
  case (Request_settled i outcome)
  assume "single_flight s" "enabled s e" then show ?thesis using Request_settled
    by (auto simp add: single_flight_def summarizeTranscript_resume_def call_host_def split: sum.splits if_splits)
qed (simp_all add: single_flight_def copyToClipboard_def clearTranscript_def onerror_def onend_def call_host_def)

lemma single_flight_run: "single_flight s \<Longrightarrow> run s evs = Some s' \<Longrightarrow> single_flight s'"
proof (induction evs arbitrary: s)
  case Nil
  then show ?case by simp
next
  case (Cons e evs)
  from Cons.prems(2) have en: "enabled s e" and r: "run (step s e) evs = Some s'"
    by (simp_all split: if_splits)
  from Cons.prems(1) en have "single_flight (step s e)"
    by (rule single_flight_step)
  then show ?case using r by (rule Cons.IH)
qed


text \<open>
  Claim C5. In every state reached from mount, \<open>isSummarizing\<close> holds exactly when one
  request is outstanding, never more than one request is outstanding, the summarize button
  is disabled exactly when \<open>isSummarizing\<close> holds, and its click can be handled only when
  no request is outstanding.
\<close>

theorem single_request_in_flight:
  "run (mount env) evs = Some s \<Longrightarrow>
   (isSummarizing s \<longleftrightarrow> length (inflight s) = 1)
   \<and> length (inflight s) \<le> 1
   \<and> summarize_disabled (render s) = isSummarizing s
   \<and> enabled s Click_summarizeTranscript = (inflight s = [])"
  using single_flight_run [OF single_flight_mount, of env evs s]
  by (auto simp add: single_flight_def render_def split: if_splits)

theorem single_request_in_flight_after_click:
  "run (mount env_webkit) [Recognition_result hello_event, Click_summarizeTranscript]
     = Some first_request_state
   \<and> isSummarizing first_request_state
   \<and> length (inflight first_request_state) = 1
   \<and> summarize_disabled (render first_request_state)
   \<and> \<not> enabled first_request_state Click_summarizeTranscript"
proof -
  from single_request_in_flight [OF run_first_request] have
    "summarize_disabled (render first_request_state) = isSummarizing first_request_state"
    "enabled first_request_state Click_summarizeTranscript = (inflight first_request_state = [])"
    by blast+
  moreover have "inflight first_request_state \<noteq> []"
    using first_request_state_fields(2) by auto
  ultimately show ?thesis
    using run_first_request first_request_state_fields by simp
qed


section \<open>A summarization request that succeeds (C6)\<close>

text \<open>
  Claim C6. For a 2xx response whose body is an object with a \<open>choices\<close> array whose first
  element is an object with a string \<open>text\<close>, the summary becomes that text trimmed,
  whatever the summary was; the error slot is not touched.
\<close>

theorem summarize_success_trims_first_choice:
  "200 \<le> status \<Longrightarrow> status < 300 \<Longrightarrow>
   map_of members (js ''choices'') = Some (JArr (JObj choice # others)) \<Longrightarrow>
   map_of choice (js ''text'') = Some (JStr text) \<Longrightarrow>
   summary (summarizeTranscript_resume (Response status (JObj members)) s) = trim text
   \<and> error (summarizeTranscript_resume (Response status (JObj members)) s) = error s"
  by (simp add: summarizeTranscript_resume_def try_block_def axios_settle_def
      choices_0_text_trim_def read_property_def read_index0_def call_trim_def)

text \<open>
  The scenario of the claim, received while the summary is \<open>old\<close>: the body
  \<open>{choices: [{text: " A short summary. "}]}\<close> gives the summary \<open>A short summary.\<close>
\<close>

theorem summarize_short_summary:
  "summary busy_state = js ''old''
   \<and> summary (summarizeTranscript_resume
        (Response 200 (JObj [(js ''choices'',
           JArr [JObj [(js ''text'', JStr (js '' A short summary. ''))]])]))
        busy_state) = js ''A short summary.''"
proof -
  have t: "trim (js '' A short summary. '') = js ''A short summary.''"
    by code_simp
  have "summary (summarizeTranscript_resume
        (Response 200 (JObj [(js ''choices'',
           JArr [JObj [(js ''text'', JStr (js '' A short summary. ''))]])]))
        busy_state) = trim (js '' A short summary. '')"
    using summarize_success_trims_first_choice [of 200
        "[(js ''choices'', JArr [JObj [(js ''text'', JStr (js '' A short summary. ''))]])]"
        "[(js ''text'', JStr (js '' A short summary. ''))]" "[]"
        "js '' A short summary. ''" busy_state]
    by simp
  with t show ?thesis
    by (simp add: busy_state_fields)
qed


section \<open>Clearing (C7, C10)\<close>

text \<open>
  Claim C7. \<open>clearTranscript\<close> sets the transcript and the summary to the empty string and
  leaves the listening flag as it was.
\<close>

theorem clearTranscript_resets_text:
  "transcript (clearTranscript s) = []
   \<and> summary (clearTranscript s) = []
   \<and> isListening (clearTranscript s) = isListening s"
  by (simp add: clearTranscript_def)

text \<open>
  Claim C10. \<open>clearTranscript\<close> leaves the error slot and the summarizing flag as they were,
  and changes nothing but the transcript and the summary: putting these two back gives the
  state before the call.
\<close>

theorem clearTranscript_frame:
  "error (clearTranscript s) = error s
   \<and> isSummarizing (clearTranscript s) = isSummarizing s
   \<and> (clearTranscript s) \<lparr> transcript := transcript s, summary := summary s \<rparr> = s"
  by (simp add: clearTranscript_def)


section \<open>Errors erased when an action starts (C8, C9)\<close>

text \<open>
  Claim C8. When the listening flag is false and \<open>start()\<close> does not throw, which includes
  the case of a \<open>null\<close> ref where \<open>start()\<close> is not called, \<open>toggleListening\<close> sets the
  error slot to \<open>null\<close>.
\<close>

theorem toggleListening_clears_error:
  "\<not> isListening s \<Longrightarrow> recognitionRef s = None \<or> start_outcome = Returns \<Longrightarrow>
   error (toggleListening start_outcome s) = None"
  by (auto simp add: toggleListening_def call_host_def split: option.splits call_outcome.splits)

text \<open>The capability-unsupported error set at mount is erased in this way.\<close>

theorem toggleListening_clears_unsupported_error:
  "\<not> isListening (mount env_none)
   \<and> recognitionRef (mount env_none) = None
   \<and> error (mount env_none) = Some unsupported_message
   \<and> error (toggleListening Returns (mount env_none)) = None"
proof -
  have a: "\<not> isListening (mount env_none)"
    by (simp add: mount_env_none_fields)
  have b: "recognitionRef (mount env_none) = None \<or> Returns = Returns"
    by simp
  from toggleListening_clears_error [OF a b] a show ?thesis
    by (simp add: mount_env_none_fields)
qed

text \<open>
  Claim C9. With a non-empty transcript, \<open>summarizeTranscript\<close> sends its request from a
  state whose error slot is already \<open>null\<close>, and the error slot is \<open>null\<close>, with no error
  paragraph shown, once the request is outstanding.
\<close>

theorem summarize_clears_error_first:
  "transcript s \<noteq> [] \<Longrightarrow>
   error (s \<lparr> isSummarizing := True, error := None \<rparr>) = None
   \<and> summarizeTranscript s
       = axios_post (completion_request (api_key s) (transcript s))
           (s \<lparr> isSummarizing := True, error := None \<rparr>)
   \<and> error (summarizeTranscript s) = None
   \<and> inflight (summarizeTranscript s)
       = inflight s @ [completion_request (api_key s) (transcript s)]
   \<and> error_paragraph (render (summarizeTranscript s)) = None"
  by (simp add: summarizeTranscript_def axios_post_def call_host_def render_def)

theorem summarize_clears_recognition_error:
  "transcript errored_state \<noteq> []
   \<and> error errored_state = Some (js ''Speech recognition error: network'')
   \<and> error (summarizeTranscript errored_state) = None
   \<and> error_paragraph (render (summarizeTranscript errored_state)) = None"
proof -
  have h: "transcript errored_state \<noteq> []"
    by (simp add: errored_state_fields js_def)
  from summarize_clears_error_first [OF h] have
    "error (summarizeTranscript errored_state) = None"
    "error_paragraph (render (summarizeTranscript errored_state)) = None"
    by blast+
  with h errored_state_fields show ?thesis by blast
qed

end
